theory Spec2Isabelle
  imports Complex_Main "HOL-Library.Word"
begin

unbundle bit_operations_syntax

section \<open>Phoenix workout API: a shallow embedding of backend/main.py\<close>

text \<open>
  Python values are modelled as follows. A \<open>str\<close> is a \<^typ>\<open>string\<close> holding the UTF-8
  bytes of the text (the few non-ASCII characters of the source are written as their
  bytes); an \<open>int\<close> is an \<^typ>\<open>int\<close>; a \<open>float\<close> literal is the \<^typ>\<open>real\<close> it denotes
  (no arithmetic is done on floats anywhere in the module); \<open>Optional[T]\<close> is
  \<^typ>\<open>'a option\<close>; a pydantic model is a record whose fields carry a short prefix of
  the class name, since several classes share field names. A raised exception is the
  \<open>Inl\<close> branch of a sum.
\<close>

subsection \<open>Errors\<close>

datatype error =
    HTTPException int string
  | TypeError string

subsection \<open>Standard-library helpers\<close>

text \<open>
  \<open>str.upper\<close>. On ASCII text (every byte below 0x80) it maps the twenty-six lower-case
  letters to their upper-case forms and keeps every other character. On text with a
  non-ASCII character it follows the Unicode case mapping, which also sends some
  non-ASCII letters to ASCII ones (U+0131 to \<open>I\<close>, U+017F to \<open>S\<close>, U+FB06 to \<open>ST\<close>). That
  table belongs to Python, not to this module: it is the parameter \<open>unicode_upper\<close>, a
  function on the UTF-8 bytes of the text, and every result below holds for whatever
  function it is.
\<close>

definition char_upper :: "char \<Rightarrow> char" where
  "char_upper c =
     (case map_of (zip ''abcdefghijklmnopqrstuvwxyz'' ''ABCDEFGHIJKLMNOPQRSTUVWXYZ'') c of
        Some u \<Rightarrow> u
      | None \<Rightarrow> c)"

definition is_ascii :: "string \<Rightarrow> bool" where
  "is_ascii s = list_all (\<lambda>c. \<not> digit7 c) s"

definition str_upper :: "(string \<Rightarrow> string) \<Rightarrow> string \<Rightarrow> string" where
  "str_upper unicode_upper s = (if is_ascii s then map char_upper s else unicode_upper s)"

text \<open>\<open>str(n)\<close> for an integer: its decimal digits, with a leading minus sign when negative.\<close>

definition digit_char :: "nat \<Rightarrow> char" where
  "digit_char d = ''0123456789'' ! d"

fun str_nat :: "nat \<Rightarrow> string" where
  "str_nat n = (if n < 10 then [digit_char n] else str_nat (n div 10) @ [digit_char (n mod 10)])"

definition str_int :: "int \<Rightarrow> string" where
  "str_int i = (if i < 0 then CHR ''-'' # str_nat (nat (- i)) else str_nat (nat i))"

text \<open>The character U+1F525 (fire) of the acknowledgement message, as its UTF-8 bytes.\<close>

definition fire_emoji :: string where
  "fire_emoji = [CHR 0xF0, CHR 0x9F, CHR 0x94, CHR 0xA5]"

text \<open>
  \<open>'%0nx' % v\<close>: the \<open>n\<close> low hexadecimal digits of \<open>v\<close>, most significant first, in lower
  case (all of \<open>v\<close> when \<open>v < 16 ^ n\<close>).
\<close>

definition hex_char :: "nat \<Rightarrow> char" where
  "hex_char d = ''0123456789abcdef'' ! d"

fun hex_digits :: "nat \<Rightarrow> nat \<Rightarrow> string" where
  "hex_digits 0 v = []"
| "hex_digits (Suc n) v = hex_digits n (v div 16) @ [hex_char (v mod 16)]"

subsection \<open>\<open>datetime.timedelta\<close> and \<open>datetime.datetime\<close>\<close>

text \<open>
  A \<open>timedelta\<close> is held normalised, as CPython holds it: any number of days, then
  \<open>0 \<le> seconds < 86400\<close> and \<open>0 \<le> microseconds < 1000000\<close>. The constructor
  \<open>timedelta\<close> normalises its three arguments.
\<close>

record timedelta =
  td_days :: int
  td_seconds :: int
  td_microseconds :: int

definition td_total_microseconds :: "timedelta \<Rightarrow> int" where
  "td_total_microseconds d =
     (td_days d * 86400 + td_seconds d) * 1000000 + td_microseconds d"

definition timedelta_of_microseconds :: "int \<Rightarrow> timedelta" where
  "timedelta_of_microseconds us =
     \<lparr>td_days = us div 86400000000,
      td_seconds = (us mod 86400000000) div 1000000,
      td_microseconds = us mod 1000000\<rparr>"

definition mk_timedelta :: "int \<Rightarrow> int \<Rightarrow> int \<Rightarrow> timedelta" where
  "mk_timedelta days seconds microseconds =
     timedelta_of_microseconds ((days * 86400 + seconds) * 1000000 + microseconds)"

definition td_add :: "timedelta \<Rightarrow> timedelta \<Rightarrow> timedelta" where
  "td_add a b =
     mk_timedelta (td_days a + td_days b) (td_seconds a + td_seconds b)
       (td_microseconds a + td_microseconds b)"

definition td_sub :: "timedelta \<Rightarrow> timedelta \<Rightarrow> timedelta" where
  "td_sub a b =
     mk_timedelta (td_days a - td_days b) (td_seconds a - td_seconds b)
       (td_microseconds a - td_microseconds b)"

text \<open>
  A \<open>datetime\<close> has its calendar fields and its \<open>tzinfo\<close>, kept as the fixed UTC offset
  it stands for: \<open>None\<close> is a naive datetime. pydantic builds both kinds from a request
  body, depending on whether the ISO string carries an offset.
\<close>

record datetime =
  dt_year :: int
  dt_month :: int
  dt_day :: int
  dt_hour :: int
  dt_minute :: int
  dt_second :: int
  dt_microsecond :: int
  dt_utcoffset :: "timedelta option"

definition is_leap :: "int \<Rightarrow> bool" where
  "is_leap year \<longleftrightarrow> year mod 4 = 0 \<and> (year mod 100 \<noteq> 0 \<or> year mod 400 = 0)"

definition days_before_year :: "int \<Rightarrow> int" where
  "days_before_year year =
     (let y = year - 1 in y * 365 + y div 4 - y div 100 + y div 400)"

definition DAYS_BEFORE_MONTH :: "int list" where
  "DAYS_BEFORE_MONTH = [-1, 0, 31, 59, 90, 120, 151, 181, 212, 243, 273, 304, 334]"

text \<open>A datetime always has \<open>1 \<le> month \<le> 12\<close>; outside it the table has no entry.\<close>

definition days_before_month :: "int \<Rightarrow> int \<Rightarrow> int" where
  "days_before_month year month =
     (if 1 \<le> month \<and> month \<le> 12
      then DAYS_BEFORE_MONTH ! nat month + (if month > 2 \<and> is_leap year then 1 else 0)
      else 0)"

definition ymd2ord :: "int \<Rightarrow> int \<Rightarrow> int \<Rightarrow> int" where
  "ymd2ord year month day = days_before_year year + days_before_month year month + day"

definition toordinal :: "datetime \<Rightarrow> int" where
  "toordinal d = ymd2ord (dt_year d) (dt_month d) (dt_day d)"

text \<open>
  \<open>datetime.__sub__\<close>: the difference of the wall-clock fields, corrected by the two
  offsets when they differ; a naive and an aware datetime do not subtract.
\<close>

definition dt_sub :: "datetime \<Rightarrow> datetime \<Rightarrow> error + timedelta" where
  "dt_sub a b =
     (let secs1 = dt_second a + dt_minute a * 60 + dt_hour a * 3600;
          secs2 = dt_second b + dt_minute b * 60 + dt_hour b * 3600;
          base = mk_timedelta (toordinal a - toordinal b) (secs1 - secs2)
                   (dt_microsecond a - dt_microsecond b)
      in if dt_utcoffset a = dt_utcoffset b then Inr base
         else (case (dt_utcoffset a, dt_utcoffset b) of
                 (Some myoff, Some otoff) \<Rightarrow> Inr (td_sub (td_add base otoff) myoff)
               | _ \<Rightarrow> Inl (TypeError ''cannot mix naive and timezone-aware time'')))"

text \<open>
  \<open>a < b\<close> and \<open>a \<le> b\<close> on datetimes, by the sign of the difference; comparing a naive
  with an aware datetime raises as well.
\<close>

definition dt_lt :: "datetime \<Rightarrow> datetime \<Rightarrow> error + bool" where
  "dt_lt a b =
     (case dt_sub a b of
        Inl e \<Rightarrow> Inl (TypeError ''can't compare offset-naive and offset-aware datetimes'')
      | Inr d \<Rightarrow> Inr (td_days d < 0))"

definition dt_le :: "datetime \<Rightarrow> datetime \<Rightarrow> error + bool" where
  "dt_le a b =
     (case dt_sub b a of
        Inl e \<Rightarrow> Inl (TypeError ''can't compare offset-naive and offset-aware datetimes'')
      | Inr d \<Rightarrow> Inr (0 \<le> td_days d))"

subsection \<open>\<open>uuid.uuid4\<close>\<close>

text \<open>
  \<open>uuid4()\<close> draws sixteen random bytes and stamps the variant and the version into them;
  \<open>.hex\<close> is the 128-bit value as thirty-two hexadecimal digits. The random bytes are a
  parameter of the model.
\<close>

definition uuid4 :: "128 word \<Rightarrow> 128 word" where
  "uuid4 r =
     (let i1 = r AND NOT (push_bit 48 0xc000);
          i2 = i1 OR push_bit 48 0x8000;
          i3 = i2 AND NOT (push_bit 64 0xf000)
      in i3 OR push_bit 76 4)"

definition uuid_hex :: "128 word \<Rightarrow> string" where
  "uuid_hex u = hex_digits 32 (unat u)"

subsection \<open>Auth\<close>

definition get_user_id :: "string option \<Rightarrow> error + string" where
  "get_user_id x_user_id =
     (case x_user_id of
        None \<Rightarrow> Inl (HTTPException 401 ''X-User-Id header required'')
      | Some v \<Rightarrow>
          if v = [] then Inl (HTTPException 401 ''X-User-Id header required'')
          else Inr v)"

subsection \<open>Models\<close>

text \<open>\<open>ExerciseType\<close> is a class of string constants, not a closed enumeration.\<close>

definition VITRUVIAN :: string where "VITRUVIAN = ''VITRUVIAN''"
definition DUMBBELL :: string where "DUMBBELL = ''DUMBBELL''"
definition BARBELL :: string where "BARBELL = ''BARBELL''"
definition BODYWEIGHT :: string where "BODYWEIGHT = ''BODYWEIGHT''"
definition TRX :: string where "TRX = ''TRX''"
definition MACHINE :: string where "MACHINE = ''MACHINE''"
definition REST_TIMER :: string where "REST_TIMER = ''REST_TIMER''"

lemmas ExerciseType_defs =
  VITRUVIAN_def DUMBBELL_def BARBELL_def BODYWEIGHT_def TRX_def MACHINE_def REST_TIMER_def

record PlannedSet =
  ps_set_number :: int
  ps_set_type :: string
  ps_target_reps :: "int option"
  ps_target_weight_kg :: "real option"
  ps_target_rpe :: "int option"
  ps_rest_seconds :: int

text \<open>The constructor with the class's defaults for the fields a call leaves out.\<close>

definition PlannedSet_default :: "int \<Rightarrow> PlannedSet" where
  "PlannedSet_default n =
     \<lparr>ps_set_number = n, ps_set_type = ''STANDARD'', ps_target_reps = None,
      ps_target_weight_kg = None, ps_target_rpe = None, ps_rest_seconds = 60\<rparr>"

record PlannedExercise =
  pe_order_index :: int
  pe_exercise_id :: string
  pe_exercise_name :: string
  pe_exercise_type :: string
  pe_muscle_group :: string
  pe_sets :: "PlannedSet list"
  pe_rest_seconds :: int
  pe_coaching_note :: "string option"
  pe_cable_config :: "string option"
  pe_is_travel_substitute :: bool

definition PlannedExercise_default ::
  "int \<Rightarrow> string \<Rightarrow> string \<Rightarrow> string \<Rightarrow> PlannedSet list \<Rightarrow> PlannedExercise" where
  "PlannedExercise_default order_index exercise_id exercise_name muscle_group sets =
     \<lparr>pe_order_index = order_index, pe_exercise_id = exercise_id,
      pe_exercise_name = exercise_name, pe_exercise_type = VITRUVIAN,
      pe_muscle_group = muscle_group, pe_sets = sets, pe_rest_seconds = 60,
      pe_coaching_note = None, pe_cable_config = Some ''DOUBLE'',
      pe_is_travel_substitute = False\<rparr>"

record WorkoutPlan =
  wp_plan_id :: string
  wp_user_id :: string
  wp_generated_at :: datetime
  wp_workout_name :: string
  wp_estimated_duration_minutes :: int
  wp_exercises :: "PlannedExercise list"
  wp_ai_notes :: "string option"

record CompletedSetLog =
  sl_exercise_id :: string
  sl_set_number :: int
  sl_actual_reps :: int
  sl_actual_weight_kg :: real
  sl_logged_rpe :: "int option"
  sl_is_pr :: bool

record WorkoutCompletionLog =
  wl_plan_id :: "string option"
  wl_user_id :: string
  wl_started_at :: datetime
  wl_completed_at :: datetime
  wl_sets :: "CompletedSetLog list"
  wl_notes :: "string option"

record ExerciseDefinition =
  ed_id :: string
  ed_name :: string
  ed_exercise_type :: string
  ed_muscle_group :: string
  ed_equipment :: string
  ed_description :: "string option"
  ed_coaching_note :: "string option"
  ed_default_cable_config :: "string option"

text \<open>The dictionary that \<open>log_workout_completion\<close> returns, with its seven keys.\<close>

record CompletionSummary =
  cs_status :: string
  cs_user_id :: string
  cs_plan_id :: "string option"
  cs_sets_logged :: int
  cs_duration_minutes :: int
  cs_new_prs :: int
  cs_message :: string

subsection \<open>Exercise library (seed data)\<close>

definition HYBRID_EXERCISE_LIBRARY :: "ExerciseDefinition list" where
  "HYBRID_EXERCISE_LIBRARY = [
   \<lparr>ed_id = ''db-chest-press'', ed_name = ''Dumbbell Chest Press'',
     ed_exercise_type = DUMBBELL, ed_muscle_group = ''CHEST'', ed_equipment = ''DUMBBELL'',
     ed_description = None,
     ed_coaching_note = Some (''Neutral spine, scapulae retracted. Lower until elbows at 90'' @ [CHR 0xC2, CHR 0xB0] @ ''.''),
     ed_default_cable_config = None\<rparr>,
   \<lparr>ed_id = ''db-row'', ed_name = ''Dumbbell Row'',
     ed_exercise_type = DUMBBELL, ed_muscle_group = ''BACK'', ed_equipment = ''DUMBBELL'',
     ed_description = None,
     ed_coaching_note = Some (''Brace core. Drive elbow to hip, not shoulder.''),
     ed_default_cable_config = None\<rparr>,
   \<lparr>ed_id = ''db-shoulder-press'', ed_name = ''Dumbbell Shoulder Press'',
     ed_exercise_type = DUMBBELL, ed_muscle_group = ''SHOULDERS'', ed_equipment = ''DUMBBELL'',
     ed_description = None,
     ed_coaching_note = Some (''Do not hyperextend lumbar. Press vertical, not forward.''),
     ed_default_cable_config = None\<rparr>,
   \<lparr>ed_id = ''db-rdl'', ed_name = ''Romanian Deadlift (DB)'',
     ed_exercise_type = DUMBBELL, ed_muscle_group = ''HAMSTRINGS'', ed_equipment = ''DUMBBELL'',
     ed_description = None,
     ed_coaching_note = Some (''Hip hinge, not squat. Maintain neutral spine throughout.''),
     ed_default_cable_config = None\<rparr>,
   \<lparr>ed_id = ''db-lateral-raise'', ed_name = ''Lateral Raise'',
     ed_exercise_type = DUMBBELL, ed_muscle_group = ''SHOULDERS'', ed_equipment = ''DUMBBELL'',
     ed_description = None,
     ed_coaching_note = Some (''Lead with elbows, not wrists. Stop at shoulder height.''),
     ed_default_cable_config = None\<rparr>,
   \<lparr>ed_id = ''db-bicep-curl'', ed_name = ''Dumbbell Bicep Curl'',
     ed_exercise_type = DUMBBELL, ed_muscle_group = ''BICEPS'', ed_equipment = ''DUMBBELL'',
     ed_description = None,
     ed_coaching_note = Some (''Supinate at the top. Control the eccentric.''),
     ed_default_cable_config = None\<rparr>,
   \<lparr>ed_id = ''db-tricep-kickback'', ed_name = ''Tricep Kickback'',
     ed_exercise_type = DUMBBELL, ed_muscle_group = ''TRICEPS'', ed_equipment = ''DUMBBELL'',
     ed_description = None,
     ed_coaching_note = Some (''Upper arm parallel to floor. Full extension at top.''),
     ed_default_cable_config = None\<rparr>,
   \<lparr>ed_id = ''db-goblet-squat'', ed_name = ''Goblet Squat'',
     ed_exercise_type = DUMBBELL, ed_muscle_group = ''QUADS'', ed_equipment = ''DUMBBELL'',
     ed_description = None,
     ed_coaching_note = Some (''Elbows inside knees at bottom. Drive through heels.''),
     ed_default_cable_config = None\<rparr>,
   \<lparr>ed_id = ''bw-pushup'', ed_name = ''Push-Up'',
     ed_exercise_type = BODYWEIGHT, ed_muscle_group = ''CHEST'', ed_equipment = ''BODYWEIGHT'',
     ed_description = None,
     ed_coaching_note = Some (''Rigid plank from head to heel. Elbows 45'' @ [CHR 0xC2, CHR 0xB0] @ '' from torso.''),
     ed_default_cable_config = None\<rparr>,
   \<lparr>ed_id = ''bw-pullup'', ed_name = ''Pull-Up'',
     ed_exercise_type = BODYWEIGHT, ed_muscle_group = ''BACK'', ed_equipment = ''BODYWEIGHT'',
     ed_description = None,
     ed_coaching_note = Some (''Dead hang start. Drive elbows down to lats, not shoulders.''),
     ed_default_cable_config = None\<rparr>,
   \<lparr>ed_id = ''bw-dip'', ed_name = ''Dip'',
     ed_exercise_type = BODYWEIGHT, ed_muscle_group = ''TRICEPS'', ed_equipment = ''BODYWEIGHT'',
     ed_description = None,
     ed_coaching_note = Some (''Slight forward lean for chest emphasis. Don't flare elbows.''),
     ed_default_cable_config = None\<rparr>,
   \<lparr>ed_id = ''bw-plank'', ed_name = ''Plank'',
     ed_exercise_type = BODYWEIGHT, ed_muscle_group = ''CORE'', ed_equipment = ''BODYWEIGHT'',
     ed_description = None,
     ed_coaching_note = Some (''Neutral spine. Squeeze glutes and abs. Don't hold breath.''),
     ed_default_cable_config = None\<rparr>,
   \<lparr>ed_id = ''bw-squat'', ed_name = ''Bodyweight Squat'',
     ed_exercise_type = BODYWEIGHT, ed_muscle_group = ''QUADS'', ed_equipment = ''BODYWEIGHT'',
     ed_description = None,
     ed_coaching_note = Some (''Feet shoulder-width. Knees track toes. Full depth if mobility allows.''),
     ed_default_cable_config = None\<rparr>,
   \<lparr>ed_id = ''bw-lunge'', ed_name = ''Reverse Lunge'',
     ed_exercise_type = BODYWEIGHT, ed_muscle_group = ''QUADS'', ed_equipment = ''BODYWEIGHT'',
     ed_description = None,
     ed_coaching_note = Some (''Step back, not forward. Rear knee hovers 1'' @ [CHR 0x22] @ '' above floor.''),
     ed_default_cable_config = None\<rparr>,
   \<lparr>ed_id = ''bw-glute-bridge'', ed_name = ''Glute Bridge'',
     ed_exercise_type = BODYWEIGHT, ed_muscle_group = ''GLUTES'', ed_equipment = ''BODYWEIGHT'',
     ed_description = None,
     ed_coaching_note = Some (''Drive through heels. Full hip extension at top. Pause 1 second.''),
     ed_default_cable_config = None\<rparr>,
   \<lparr>ed_id = ''trx-row'', ed_name = ''TRX Row'',
     ed_exercise_type = TRX, ed_muscle_group = ''BACK'', ed_equipment = ''TRX'',
     ed_description = None,
     ed_coaching_note = Some (''Body angle controls difficulty. Retract scapulae before pulling.''),
     ed_default_cable_config = None\<rparr>,
   \<lparr>ed_id = ''trx-chest-press'', ed_name = ''TRX Chest Press'',
     ed_exercise_type = TRX, ed_muscle_group = ''CHEST'', ed_equipment = ''TRX'',
     ed_description = None,
     ed_coaching_note = Some (''Lean forward for more load. Keep rigid plank throughout.''),
     ed_default_cable_config = None\<rparr>,
   \<lparr>ed_id = ''trx-bicep-curl'', ed_name = ''TRX Bicep Curl'',
     ed_exercise_type = TRX, ed_muscle_group = ''BICEPS'', ed_equipment = ''TRX'',
     ed_description = None,
     ed_coaching_note = Some (''Elbows fixed, walk feet forward for more load.''),
     ed_default_cable_config = None\<rparr>,
   \<lparr>ed_id = ''trx-squat'', ed_name = ''TRX Squat'',
     ed_exercise_type = TRX, ed_muscle_group = ''QUADS'', ed_equipment = ''TRX'',
     ed_description = None,
     ed_coaching_note = Some (''Hold handles for counterbalance. Allows deeper squat.''),
     ed_default_cable_config = None\<rparr>,
   \<lparr>ed_id = ''trx-plank'', ed_name = ''TRX Plank'',
     ed_exercise_type = TRX, ed_muscle_group = ''CORE'', ed_equipment = ''TRX'',
     ed_description = None,
     ed_coaching_note = Some (''Feet in straps. Harder than floor plank '' @ [CHR 0xE2, CHR 0x80, CHR 0x94] @ '' high core demand.''),
     ed_default_cable_config = None\<rparr>,
   \<lparr>ed_id = ''rest-60'', ed_name = ''Rest (60 sec)'',
     ed_exercise_type = REST_TIMER, ed_muscle_group = ''RECOVERY'', ed_equipment = ''NONE'',
     ed_description = None,
     ed_coaching_note = Some (''Active recovery. Breathe. Shake out the pump.''),
     ed_default_cable_config = None\<rparr>,
   \<lparr>ed_id = ''rest-90'', ed_name = ''Rest (90 sec)'',
     ed_exercise_type = REST_TIMER, ed_muscle_group = ''RECOVERY'', ed_equipment = ''NONE'',
     ed_description = None,
     ed_coaching_note = Some (''Longer recovery for heavy compound sets.''),
     ed_default_cable_config = None\<rparr>,
   \<lparr>ed_id = ''rest-120'', ed_name = ''Rest (2 min)'',
     ed_exercise_type = REST_TIMER, ed_muscle_group = ''RECOVERY'', ed_equipment = ''NONE'',
     ed_description = None,
     ed_coaching_note = Some (''Full recovery. Used after max-effort sets.''),
     ed_default_cable_config = None\<rparr>

  ]"

subsection \<open>Workout generation (MVP template)\<close>

text \<open>
  \<open>generate_workout_plan\<close> reads two things from its environment: the random bytes behind
  \<open>uuid4()\<close> and the clock behind \<open>datetime.utcnow()\<close>. Both are parameters here, after the
  source's own two. \<open>user_history\<close> is an optional list whose elements the source never
  looks at.
\<close>

definition generate_workout_plan ::
  "string \<Rightarrow> 'h list option \<Rightarrow> 128 word \<Rightarrow> datetime \<Rightarrow> WorkoutPlan" where
  "generate_workout_plan user_id user_history rnd now =
     (let plan_id = ''plan_'' @ take 8 (uuid_hex (uuid4 rnd));
          exercises = [
            (PlannedExercise_default 0 ''cable-chest-press'' ''Cable Chest Press'' ''CHEST''
               [(PlannedSet_default 1)\<lparr>ps_set_type := ''WARMUP'', ps_target_reps := Some 15,
                   ps_target_weight_kg := Some 10\<rparr>,
                (PlannedSet_default 2)\<lparr>ps_set_type := ''STANDARD'', ps_target_reps := Some 10,
                   ps_target_weight_kg := Some 20\<rparr>,
                (PlannedSet_default 3)\<lparr>ps_set_type := ''STANDARD'', ps_target_reps := Some 10,
                   ps_target_weight_kg := Some 20\<rparr>,
                (PlannedSet_default 4)\<lparr>ps_set_type := ''STANDARD'', ps_target_reps := Some 8,
                   ps_target_weight_kg := Some 22.5\<rparr>])
              \<lparr>pe_exercise_type := VITRUVIAN,
               pe_coaching_note :=
                 Some ''Set cable at chest height. Drive elbows together at lockout.'',
               pe_cable_config := Some ''DOUBLE''\<rparr>,
            (PlannedExercise_default 1 ''rest-90'' ''Rest'' ''RECOVERY''
               [(PlannedSet_default 1)\<lparr>ps_set_type := ''REST'', ps_rest_seconds := 90\<rparr>])
              \<lparr>pe_exercise_type := REST_TIMER, pe_rest_seconds := 90\<rparr>,
            (PlannedExercise_default 2 ''cable-shoulder-press'' ''Cable Shoulder Press''
               ''SHOULDERS''
               [(PlannedSet_default 1)\<lparr>ps_set_type := ''STANDARD'', ps_target_reps := Some 10,
                   ps_target_weight_kg := Some 15\<rparr>,
                (PlannedSet_default 2)\<lparr>ps_set_type := ''STANDARD'', ps_target_reps := Some 10,
                   ps_target_weight_kg := Some 15\<rparr>,
                (PlannedSet_default 3)\<lparr>ps_set_type := ''STANDARD'', ps_target_reps := Some 8,
                   ps_target_weight_kg := Some 17.5\<rparr>])
              \<lparr>pe_exercise_type := VITRUVIAN,
               pe_coaching_note := Some ''Press vertical. Brace core to protect lumbar.'',
               pe_cable_config := Some ''DOUBLE''\<rparr>,
            (PlannedExercise_default 3 ''rest-60'' ''Rest'' ''RECOVERY''
               [(PlannedSet_default 1)\<lparr>ps_set_type := ''REST'', ps_rest_seconds := 60\<rparr>])
              \<lparr>pe_exercise_type := REST_TIMER, pe_rest_seconds := 60\<rparr>,
            (PlannedExercise_default 4 ''bw-pushup'' ''Push-Up'' ''CHEST''
               [(PlannedSet_default 1)\<lparr>ps_set_type := ''AMRAP'', ps_target_reps := None\<rparr>,
                (PlannedSet_default 2)\<lparr>ps_set_type := ''AMRAP'', ps_target_reps := None\<rparr>])
              \<lparr>pe_exercise_type := BODYWEIGHT,
               pe_coaching_note :=
                 Some (''Finisher '' @ [CHR 0xE2, CHR 0x80, CHR 0x94]
                       @ '' go to near failure. Control the negative.'')\<rparr>]
      in \<lparr>wp_plan_id = plan_id,
          wp_user_id = user_id,
          wp_generated_at = now,
          wp_workout_name = ''Upper Push '' @ [CHR 0xE2, CHR 0x80, CHR 0x94] @ '' Day 1'',
          wp_estimated_duration_minutes = 35,
          wp_exercises = exercises,
          wp_ai_notes =
            Some (''Progressive overload target: +2.5kg on Cable Chest Press ''
                  @ ''if all 4 sets completed at RPE <8.'')\<rparr>)"

subsection \<open>Routes\<close>

text \<open>
  Each handler is the function of the source. Where the source declares
  \<open>user_id = Depends(get_user_id)\<close>, the framework runs \<open>get_user_id\<close> on the request's
  \<open>X-User-Id\<close> header first and hands the handler its result, or answers with its
  exception: that step is \<open>route_get_todays_workout\<close> and
  \<open>route_log_workout_completion\<close>. The handler's parameter \<open>log\<close> is written \<open>wl\<close>
  (\<open>log\<close> is the logarithm here).
\<close>

definition get_todays_workout :: "string \<Rightarrow> 128 word \<Rightarrow> datetime \<Rightarrow> WorkoutPlan" where
  "get_todays_workout user_id rnd now =
     (let plan = generate_workout_plan user_id (None :: unit list option) rnd now in plan)"

definition route_get_todays_workout ::
  "string option \<Rightarrow> 128 word \<Rightarrow> datetime \<Rightarrow> error + WorkoutPlan" where
  "route_get_todays_workout x_user_id rnd now =
     (case get_user_id x_user_id of
        Inl e \<Rightarrow> Inl e
      | Inr user_id \<Rightarrow> Inr (get_todays_workout user_id rnd now))"

definition log_workout_completion ::
  "WorkoutCompletionLog \<Rightarrow> string \<Rightarrow> error + CompletionSummary" where
  "log_workout_completion wl user_id =
     (case dt_sub (wl_completed_at wl) (wl_started_at wl) of
        Inl e \<Rightarrow> Inl e
      | Inr delta \<Rightarrow>
          (let duration_minutes = td_seconds delta div 60;
               total_sets = int (length (wl_sets wl));
               prs = filter sl_is_pr (wl_sets wl)
           in Inr \<lparr>cs_status = ''logged'',
                   cs_user_id = user_id,
                   cs_plan_id = wl_plan_id wl,
                   cs_sets_logged = total_sets,
                   cs_duration_minutes = duration_minutes,
                   cs_new_prs = int (length prs),
                   cs_message =
                     ''Great work. '' @ str_int total_sets @ '' sets logged. ''
                     @ (if prs \<noteq> []
                        then (fire_emoji @ '' '')
                             @ str_int (int (length prs)) @ '' new PRs!''
                        else ''Keep pushing.'')\<rparr>))"

definition route_log_workout_completion ::
  "string option \<Rightarrow> WorkoutCompletionLog \<Rightarrow> error + CompletionSummary" where
  "route_log_workout_completion x_user_id wl =
     (case get_user_id x_user_id of
        Inl e \<Rightarrow> Inl e
      | Inr user_id \<Rightarrow> log_workout_completion wl user_id)"

definition get_exercise_library :: "ExerciseDefinition list" where
  "get_exercise_library = HYBRID_EXERCISE_LIBRARY"

text \<open>
  \<open>get_hybrid_exercises\<close> calls \<open>exercise_type.upper()\<close>: its first argument here is the
  Unicode case mapping that \<open>str_upper\<close> needs.
\<close>

definition get_hybrid_exercises ::
  "(string \<Rightarrow> string) \<Rightarrow> string option \<Rightarrow> ExerciseDefinition list" where
  "get_hybrid_exercises unicode_upper exercise_type =
     (let exercises = filter (\<lambda>e. ed_exercise_type e \<noteq> VITRUVIAN) HYBRID_EXERCISE_LIBRARY
      in case exercise_type of
           None \<Rightarrow> exercises
         | Some t \<Rightarrow>
             if t \<noteq> []
             then filter (\<lambda>e. ed_exercise_type e = str_upper unicode_upper t) exercises
             else exercises)"

subsection \<open>What the specification says, in its own words\<close>

text \<open>
  The duration the specification asks for: the whole elapsed time between the two
  instants, in minutes, rounded down.
\<close>

definition spec_duration_minutes :: "timedelta \<Rightarrow> int" where
  "spec_duration_minutes elapsed = td_total_microseconds elapsed div 60000000"

text \<open>The values of the specification's exercise-type enumeration.\<close>

definition spec_exercise_types :: "string list" where
  "spec_exercise_types = [VITRUVIAN, DUMBBELL, BARBELL, BODYWEIGHT, TRX, MACHINE, REST_TIMER]"

text \<open>Whether a timedelta is in the normal form that CPython keeps.\<close>

definition normalised :: "timedelta \<Rightarrow> bool" where
  "normalised d \<longleftrightarrow>
     td_seconds d = td_total_microseconds d div 1000000 mod 86400 \<and>
     td_days d = td_total_microseconds d div 86400000000"

subsection \<open>Example inputs\<close>

text \<open>A naive datetime at a whole second, as pydantic parses \<open>2024-01-01T10:00:00\<close>.\<close>

definition naive_datetime :: "int \<Rightarrow> int \<Rightarrow> int \<Rightarrow> int \<Rightarrow> int \<Rightarrow> int \<Rightarrow> datetime" where
  "naive_datetime year month day hour minute second =
     \<lparr>dt_year = year, dt_month = month, dt_day = day, dt_hour = hour, dt_minute = minute,
      dt_second = second, dt_microsecond = 0, dt_utcoffset = None\<rparr>"

definition example_set :: "int \<Rightarrow> bool \<Rightarrow> CompletedSetLog" where
  "example_set n pr =
     \<lparr>sl_exercise_id = ''bw-pushup'', sl_set_number = n, sl_actual_reps = 12,
      sl_actual_weight_kg = 0, sl_logged_rpe = None, sl_is_pr = pr\<rparr>"

text \<open>Six sets, the third of them a personal record.\<close>

definition example_sets :: "CompletedSetLog list" where
  "example_sets = [example_set 1 False, example_set 2 False, example_set 3 True,
     example_set 4 False, example_set 5 False, example_set 6 False]"

definition example_log :: "datetime \<Rightarrow> datetime \<Rightarrow> WorkoutCompletionLog" where
  "example_log started completed =
     \<lparr>wl_plan_id = Some ''plan_00000000'', wl_user_id = ''u1'', wl_started_at = started,
      wl_completed_at = completed, wl_sets = example_sets, wl_notes = None\<rparr>"

definition day_span_log :: WorkoutCompletionLog where
  "day_span_log = example_log (naive_datetime 2024 1 1 10 0 0) (naive_datetime 2024 1 2 10 0 0)"

definition reversed_log :: WorkoutCompletionLog where
  "reversed_log = example_log (naive_datetime 2024 1 1 10 42 0) (naive_datetime 2024 1 1 10 0 0)"

section \<open>The exercise catalog\<close>

lemma library_types:
  "map ed_exercise_type HYBRID_EXERCISE_LIBRARY =
     replicate 8 DUMBBELL @ replicate 7 BODYWEIGHT @ replicate 5 TRX @ replicate 3 REST_TIMER"
  by (simp add: HYBRID_EXERCISE_LIBRARY_def numeral_nat)

lemma library_ids:
  "map ed_id HYBRID_EXERCISE_LIBRARY =
     [''db-chest-press'', ''db-row'', ''db-shoulder-press'', ''db-rdl'', ''db-lateral-raise'',
      ''db-bicep-curl'', ''db-tricep-kickback'', ''db-goblet-squat'',
      ''bw-pushup'', ''bw-pullup'', ''bw-dip'', ''bw-plank'', ''bw-squat'', ''bw-lunge'',
      ''bw-glute-bridge'',
      ''trx-row'', ''trx-chest-press'', ''trx-bicep-curl'', ''trx-squat'', ''trx-plank'',
      ''rest-60'', ''rest-90'', ''rest-120'']"
  by (simp add: HYBRID_EXERCISE_LIBRARY_def)

lemma library_types_set:
  "ed_exercise_type ` set HYBRID_EXERCISE_LIBRARY = {DUMBBELL, BODYWEIGHT, TRX, REST_TIMER}"
proof -
  have "ed_exercise_type ` set HYBRID_EXERCISE_LIBRARY
          = set (map ed_exercise_type HYBRID_EXERCISE_LIBRARY)"
    by simp
  also have "\<dots> = {DUMBBELL, BODYWEIGHT, TRX, REST_TIMER}"
    unfolding library_types by (simp add: numeral_nat insert_commute)
  finally show ?thesis .
qed

lemma library_no_vitruvian:
  "e \<in> set HYBRID_EXERCISE_LIBRARY \<Longrightarrow> ed_exercise_type e \<noteq> VITRUVIAN"
proof
  assume e: "e \<in> set HYBRID_EXERCISE_LIBRARY" and v: "ed_exercise_type e = VITRUVIAN"
  from e have "ed_exercise_type e \<in> ed_exercise_type ` set HYBRID_EXERCISE_LIBRARY"
    by (rule imageI)
  with v show False
    unfolding library_types_set by (simp add: ExerciseType_defs)
qed

text \<open>
  Claim C10. No entry of the seeded catalog has the type VITRUVIAN, so the hybrid listing
  without a filter is the whole catalog, in the same order: \<open>GET /exercises/hybrid\<close> and
  \<open>GET /exercises\<close> answer with equal lists.
\<close>

theorem library_has_no_vitruvian_so_hybrid_is_all:
  "filter (\<lambda>e. ed_exercise_type e = VITRUVIAN) HYBRID_EXERCISE_LIBRARY = [] \<and>
   get_hybrid_exercises unicode_upper None = get_exercise_library"
  by (simp add: get_hybrid_exercises_def get_exercise_library_def filter_empty_conv
        filter_id_conv library_no_vitruvian)

text \<open>
  Claim C5. Whatever the filter (a string or none), no entry that \<open>get_hybrid_exercises\<close>
  returns has the type VITRUVIAN; and with no filter it returns exactly the catalog entries
  whose type is not VITRUVIAN, in catalog order. The proof does not look into the catalog,
  nor into the case mapping.
\<close>

theorem get_hybrid_exercises_never_vitruvian:
  "(\<forall>e \<in> set (get_hybrid_exercises unicode_upper exercise_type).
      ed_exercise_type e \<noteq> VITRUVIAN) \<and>
   get_hybrid_exercises unicode_upper None
     = filter (\<lambda>e. ed_exercise_type e \<noteq> VITRUVIAN) HYBRID_EXERCISE_LIBRARY"
  by (auto simp add: get_hybrid_exercises_def Let_def split: option.splits)

lemma str_upper_ascii: "is_ascii s \<Longrightarrow> str_upper unicode_upper s = map char_upper s"
  by (simp add: str_upper_def)

lemma str_upper_trx: "str_upper unicode_upper ''trx'' = TRX"
  by (simp add: str_upper_def is_ascii_def char_upper_def TRX_def)

lemma hybrid_trx_ids:
  "map ed_id (get_hybrid_exercises unicode_upper (Some ''trx''))
     = [''trx-row'', ''trx-chest-press'', ''trx-bicep-curl'', ''trx-squat'', ''trx-plank'']"
  by (simp add: get_hybrid_exercises_def str_upper_trx HYBRID_EXERCISE_LIBRARY_def
        ExerciseType_defs)

text \<open>The theorem at the filter \<open>trx\<close>, whose first result is the TRX row.\<close>

theorem get_hybrid_exercises_never_vitruvian_witness:
  "hd (get_hybrid_exercises id (Some ''trx'')) \<in> set (get_hybrid_exercises id (Some ''trx'')) \<and>
   ed_id (hd (get_hybrid_exercises id (Some ''trx''))) = ''trx-row'' \<and>
   ed_exercise_type (hd (get_hybrid_exercises id (Some ''trx''))) \<noteq> VITRUVIAN"
proof -
  have ne: "get_hybrid_exercises id (Some ''trx'') \<noteq> []"
    using hybrid_trx_ids [of id] by auto
  then have mem: "hd (get_hybrid_exercises id (Some ''trx''))
                    \<in> set (get_hybrid_exercises id (Some ''trx''))"
    by simp
  have "ed_id (hd (get_hybrid_exercises id (Some ''trx'')))
          = hd (map ed_id (get_hybrid_exercises id (Some ''trx'')))"
    using ne by (simp add: hd_map)
  then have "ed_id (hd (get_hybrid_exercises id (Some ''trx''))) = ''trx-row''"
    by (simp add: hybrid_trx_ids)
  with mem get_hybrid_exercises_never_vitruvian [of id "Some ''trx''"] show ?thesis by blast
qed

lemma library_types_in_spec:
  "e \<in> set HYBRID_EXERCISE_LIBRARY \<Longrightarrow> ed_exercise_type e \<in> set spec_exercise_types"
proof -
  assume "e \<in> set HYBRID_EXERCISE_LIBRARY"
  then have "ed_exercise_type e \<in> ed_exercise_type ` set HYBRID_EXERCISE_LIBRARY"
    by (rule imageI)
  then show ?thesis
    unfolding library_types_set by (auto simp add: spec_exercise_types_def)
qed

text \<open>
  Claim C7, as amended. The empty filter string is treated like an absent filter (the
  guard \<open>if exercise_type:\<close> is false for it) and returns every non-VITRUVIAN entry. For
  every non-empty filter string the result is exactly the non-VITRUVIAN catalog entries
  whose type equals \<open>str.upper\<close> of the filter, and it is the empty list when that
  upper-cased filter is no value of the enumeration; for an ASCII filter the upper-cased
  filter is the filter with its letters \<open>a\<close> to \<open>z\<close> replaced by \<open>A\<close> to \<open>Z\<close>. This holds
  for every Unicode case mapping. No filter string makes the function fail: it returns a
  list in every case.
\<close>

theorem get_hybrid_exercises_filter:
  "get_hybrid_exercises unicode_upper (Some []) = get_hybrid_exercises unicode_upper None \<and>
   (t \<noteq> [] \<longrightarrow>
      get_hybrid_exercises unicode_upper (Some t)
        = filter (\<lambda>e. ed_exercise_type e = str_upper unicode_upper t)
            (filter (\<lambda>e. ed_exercise_type e \<noteq> VITRUVIAN) HYBRID_EXERCISE_LIBRARY) \<and>
      (is_ascii t \<longrightarrow>
         get_hybrid_exercises unicode_upper (Some t)
           = filter (\<lambda>e. ed_exercise_type e = map char_upper t)
               (filter (\<lambda>e. ed_exercise_type e \<noteq> VITRUVIAN) HYBRID_EXERCISE_LIBRARY)) \<and>
      (str_upper unicode_upper t \<notin> set spec_exercise_types \<longrightarrow>
         get_hybrid_exercises unicode_upper (Some t) = []))"
proof -
  have a: "get_hybrid_exercises unicode_upper (Some [])
             = get_hybrid_exercises unicode_upper None"
    by (simp add: get_hybrid_exercises_def)
  have b: "get_hybrid_exercises unicode_upper (Some t)
        = filter (\<lambda>e. ed_exercise_type e = str_upper unicode_upper t)
            (filter (\<lambda>e. ed_exercise_type e \<noteq> VITRUVIAN) HYBRID_EXERCISE_LIBRARY)"
    if "t \<noteq> []"
    using that by (simp add: get_hybrid_exercises_def)
  have b': "get_hybrid_exercises unicode_upper (Some t)
        = filter (\<lambda>e. ed_exercise_type e = map char_upper t)
            (filter (\<lambda>e. ed_exercise_type e \<noteq> VITRUVIAN) HYBRID_EXERCISE_LIBRARY)"
    if ne: "t \<noteq> []" and asc: "is_ascii t"
    unfolding b [OF ne] str_upper_ascii [OF asc] ..
  have c: "get_hybrid_exercises unicode_upper (Some t) = []"
    if ne: "t \<noteq> []" and un: "str_upper unicode_upper t \<notin> set spec_exercise_types"
  proof -
    have "ed_exercise_type e \<noteq> str_upper unicode_upper t"
      if "e \<in> set HYBRID_EXERCISE_LIBRARY" for e
      using library_types_in_spec [OF that] un by auto
    then show ?thesis
      unfolding b [OF ne] by (simp add: filter_empty_conv)
  qed
  from a b b' c show ?thesis by blast
qed

text \<open>
  Claim C7 as stated fails at the empty filter string: it matches no enumeration value,
  yet the result is the whole catalog of twenty-three entries, not the empty list. (The
  case mapping is not consulted for it; \<open>id\<close> stands in.)
\<close>

theorem get_hybrid_exercises_empty_filter_counterexample:
  "str_upper id [] \<notin> set spec_exercise_types \<and>
   get_hybrid_exercises id (Some []) = HYBRID_EXERCISE_LIBRARY \<and>
   length (get_hybrid_exercises id (Some [])) = 23"
proof -
  have "get_hybrid_exercises id (Some []) = HYBRID_EXERCISE_LIBRARY"
    by (simp add: get_hybrid_exercises_def filter_id_conv library_no_vitruvian)
  moreover have "length (map ed_id HYBRID_EXERCISE_LIBRARY) = 23"
    unfolding library_ids by simp
  moreover have "str_upper id [] \<notin> set spec_exercise_types"
    by (simp add: str_upper_def is_ascii_def spec_exercise_types_def ExerciseType_defs)
  ultimately show ?thesis by simp
qed

lemma str_upper_yoga: "str_upper unicode_upper ''yoga'' = ''YOGA''"
  by (simp add: str_upper_def is_ascii_def char_upper_def)

text \<open>
  The amended claim at the ASCII filters \<open>trx\<close> (five entries) and \<open>yoga\<close> (no
  enumeration value, no entry), where the case mapping is not consulted.
\<close>

theorem get_hybrid_exercises_filter_witness:
  "map ed_id (get_hybrid_exercises id (Some ''trx''))
     = [''trx-row'', ''trx-chest-press'', ''trx-bicep-curl'', ''trx-squat'', ''trx-plank''] \<and>
   is_ascii ''trx'' \<and> map char_upper ''trx'' = ''TRX'' \<and>
   get_hybrid_exercises id (Some ''trx'')
     = filter (\<lambda>e. ed_exercise_type e = ''TRX'')
         (filter (\<lambda>e. ed_exercise_type e \<noteq> VITRUVIAN) HYBRID_EXERCISE_LIBRARY) \<and>
   str_upper id ''yoga'' \<notin> set spec_exercise_types \<and>
   get_hybrid_exercises id (Some ''yoga'') = []"
proof -
  have y: "str_upper id ''yoga'' \<notin> set spec_exercise_types"
    unfolding str_upper_yoga by (simp add: spec_exercise_types_def ExerciseType_defs)
  have ny: "''yoga'' \<noteq> []" and nt: "''trx'' \<noteq> []"
    by simp_all
  have asc: "is_ascii ''trx''"
    by (simp add: is_ascii_def)
  have up: "map char_upper ''trx'' = ''TRX''"
    by (simp add: char_upper_def)
  have "get_hybrid_exercises id (Some ''yoga'') = []"
    using get_hybrid_exercises_filter [of id "''yoga''"] y ny by blast
  moreover have "get_hybrid_exercises id (Some ''trx'')
     = filter (\<lambda>e. ed_exercise_type e = map char_upper ''trx'')
         (filter (\<lambda>e. ed_exercise_type e \<noteq> VITRUVIAN) HYBRID_EXERCISE_LIBRARY)"
    using get_hybrid_exercises_filter [of id "''trx''"] nt asc by blast
  ultimately show ?thesis using y asc up hybrid_trx_ids [of id] by simp
qed

text \<open>
  A filter with a non-ASCII letter goes through the Unicode case mapping: Python maps
  \<open>bodywe\<close>, U+0131, \<open>ght\<close> to \<open>BODYWEIGHT\<close>, and the filter then selects the seven
  bodyweight entries.
\<close>

lemma get_hybrid_exercises_dotless_i:
  assumes "unicode_upper (''bodywe'' @ [CHR 0xC4, CHR 0xB1] @ ''ght'') = BODYWEIGHT"
  shows "map ed_id
           (get_hybrid_exercises unicode_upper
              (Some (''bodywe'' @ [CHR 0xC4, CHR 0xB1] @ ''ght'')))
         = [''bw-pushup'', ''bw-pullup'', ''bw-dip'', ''bw-plank'', ''bw-squat'', ''bw-lunge'',
            ''bw-glute-bridge'']"
proof -
  have "\<not> is_ascii (''bodywe'' @ [CHR 0xC4, CHR 0xB1] @ ''ght'')"
    by (simp add: is_ascii_def)
  then have "str_upper unicode_upper (''bodywe'' @ [CHR 0xC4, CHR 0xB1] @ ''ght'') = BODYWEIGHT"
    using assms by (simp add: str_upper_def)
  then have "get_hybrid_exercises unicode_upper
               (Some (''bodywe'' @ [CHR 0xC4, CHR 0xB1] @ ''ght''))
             = filter (\<lambda>e. ed_exercise_type e = BODYWEIGHT)
                 (filter (\<lambda>e. ed_exercise_type e \<noteq> VITRUVIAN) HYBRID_EXERCISE_LIBRARY)"
    by (simp add: get_hybrid_exercises_def)
  then show ?thesis
    by (simp add: HYBRID_EXERCISE_LIBRARY_def ExerciseType_defs)
qed

section \<open>The plan generator\<close>

lemmas plan_defs = generate_workout_plan_def PlannedExercise_default_def PlannedSet_default_def

lemma plan_exercise_ids:
  "map pe_exercise_id (wp_exercises (generate_workout_plan user_id user_history rnd now))
     = [''cable-chest-press'', ''rest-90'', ''cable-shoulder-press'', ''rest-60'', ''bw-pushup'']"
  by (simp add: plan_defs Let_def)

lemma plan_exercise_types:
  "map pe_exercise_type (wp_exercises (generate_workout_plan user_id user_history rnd now))
     = [VITRUVIAN, REST_TIMER, VITRUVIAN, REST_TIMER, BODYWEIGHT]"
  by (simp add: plan_defs Let_def)

lemma plan_exercises_independent:
  "wp_exercises (generate_workout_plan user_id user_history rnd now)
     = wp_exercises (generate_workout_plan user_id' user_history' rnd' now')"
  by (simp add: generate_workout_plan_def Let_def)

text \<open>
  Claim C4. For every user id, history (or none), random draw and clock value, the plan
  holds the same five exercises in the same order: the Vitruvian cable chest press, a rest
  of 90 seconds, the Vitruvian cable shoulder press, a rest of 60 seconds, and the
  bodyweight push-up finisher whose two sets are AMRAP with no target reps. The exercise
  list does not depend on any argument.
\<close>

theorem generate_workout_plan_fixed_sequence:
  "map pe_exercise_id (wp_exercises (generate_workout_plan user_id user_history rnd now))
     = [''cable-chest-press'', ''rest-90'', ''cable-shoulder-press'', ''rest-60'', ''bw-pushup''] \<and>
   map pe_order_index (wp_exercises (generate_workout_plan user_id user_history rnd now))
     = [0, 1, 2, 3, 4] \<and>
   map pe_exercise_name (wp_exercises (generate_workout_plan user_id user_history rnd now))
     = [''Cable Chest Press'', ''Rest'', ''Cable Shoulder Press'', ''Rest'', ''Push-Up''] \<and>
   map pe_exercise_type (wp_exercises (generate_workout_plan user_id user_history rnd now))
     = [VITRUVIAN, REST_TIMER, VITRUVIAN, REST_TIMER, BODYWEIGHT] \<and>
   map pe_rest_seconds (wp_exercises (generate_workout_plan user_id user_history rnd now))
     = [60, 90, 60, 60, 60] \<and>
   map (map ps_rest_seconds \<circ> pe_sets)
       (wp_exercises (generate_workout_plan user_id user_history rnd now))
     = [[60, 60, 60, 60], [90], [60, 60, 60], [60], [60, 60]] \<and>
   map (map ps_set_type \<circ> pe_sets)
       (wp_exercises (generate_workout_plan user_id user_history rnd now))
     = [[''WARMUP'', ''STANDARD'', ''STANDARD'', ''STANDARD''], [''REST''],
        [''STANDARD'', ''STANDARD'', ''STANDARD''], [''REST''], [''AMRAP'', ''AMRAP'']] \<and>
   map (map ps_target_reps \<circ> pe_sets)
       (wp_exercises (generate_workout_plan user_id user_history rnd now))
     = [[Some 15, Some 10, Some 10, Some 8], [None],
        [Some 10, Some 10, Some 8], [None], [None, None]] \<and>
   wp_exercises (generate_workout_plan user_id user_history rnd now)
     = wp_exercises (generate_workout_plan user_id' user_history' rnd' now')"
proof -
  let ?xs = "wp_exercises (generate_workout_plan user_id user_history rnd now)"
  have 1: "map pe_order_index ?xs = [0, 1, 2, 3, 4]"
    by (simp add: plan_defs Let_def)
  have 2: "map pe_exercise_name ?xs
             = [''Cable Chest Press'', ''Rest'', ''Cable Shoulder Press'', ''Rest'', ''Push-Up'']"
    by (simp add: plan_defs Let_def)
  have 3: "map pe_rest_seconds ?xs = [60, 90, 60, 60, 60]"
    by (simp add: plan_defs Let_def)
  have 4: "map (map ps_rest_seconds \<circ> pe_sets) ?xs
             = [[60, 60, 60, 60], [90], [60, 60, 60], [60], [60, 60]]"
    by (simp add: plan_defs Let_def)
  have 5: "map (map ps_set_type \<circ> pe_sets) ?xs
     = [[''WARMUP'', ''STANDARD'', ''STANDARD'', ''STANDARD''], [''REST''],
        [''STANDARD'', ''STANDARD'', ''STANDARD''], [''REST''], [''AMRAP'', ''AMRAP'']]"
    by (simp add: plan_defs Let_def)
  have 6: "map (map ps_target_reps \<circ> pe_sets) ?xs
     = [[Some 15, Some 10, Some 10, Some 8], [None],
        [Some 10, Some 10, Some 8], [None], [None, None]]"
    by (simp add: plan_defs Let_def)
  show ?thesis
    using plan_exercise_ids [of user_id user_history rnd now]
      plan_exercise_types [of user_id user_history rnd now] 1 2 3 4 5 6
      plan_exercises_independent [of user_id user_history rnd now user_id' user_history' rnd' now']
    by blast
qed

text \<open>
  Which exercise ids of a plan name a catalog entry: the two rests and the push-up do, the
  two cable exercises, of type VITRUVIAN, do not.
\<close>

lemma plan_exercise_ids_resolve_iff_not_vitruvian:
  "\<forall>e \<in> set (wp_exercises (generate_workout_plan user_id user_history rnd now)).
     (pe_exercise_id e \<in> set (map ed_id HYBRID_EXERCISE_LIBRARY))
       = (pe_exercise_type e \<noteq> VITRUVIAN)"
proof -
  let ?xs = "wp_exercises (generate_workout_plan user_id user_history rnd now)"
  have pairs: "map (\<lambda>e. (pe_exercise_id e, pe_exercise_type e)) ?xs
     = [(''cable-chest-press'', VITRUVIAN), (''rest-90'', REST_TIMER),
        (''cable-shoulder-press'', VITRUVIAN), (''rest-60'', REST_TIMER),
        (''bw-pushup'', BODYWEIGHT)]"
    by (simp add: plan_defs Let_def)
  have "\<forall>p \<in> set (map (\<lambda>e. (pe_exercise_id e, pe_exercise_type e)) ?xs).
          (fst p \<in> set (map ed_id HYBRID_EXERCISE_LIBRARY)) = (snd p \<noteq> VITRUVIAN)"
    unfolding pairs library_ids by (simp add: ExerciseType_defs)
  then show ?thesis by simp
qed

text \<open>
  Claim C3 asks that every exercise id of a generated plan be the id of a catalog entry.
  The first exercise of every plan is \<open>cable-chest-press\<close>, and no entry of the seeded
  catalog has that id: the catalog holds no VITRUVIAN entry at all, although
  \<open>get_exercise_library\<close> is documented to return the Vitruvian exercises with their
  alternatives.
\<close>

theorem plan_cable_chest_press_not_in_catalog:
  "pe_exercise_id (hd (wp_exercises
      (generate_workout_plan ''u1'' (None :: unit list option) 0 (naive_datetime 2024 1 1 10 0 0))))
     = ''cable-chest-press'' \<and>
   ''cable-chest-press'' \<notin> set (map ed_id HYBRID_EXERCISE_LIBRARY)"
proof -
  have "hd (map pe_exercise_id (wp_exercises
      (generate_workout_plan ''u1'' (None :: unit list option) 0 (naive_datetime 2024 1 1 10 0 0))))
     = ''cable-chest-press''"
    unfolding plan_exercise_ids by simp
  moreover have "wp_exercises
      (generate_workout_plan ''u1'' (None :: unit list option) 0 (naive_datetime 2024 1 1 10 0 0)) \<noteq> []"
    using plan_exercise_ids [of "''u1''" "None :: unit list option" 0 "naive_datetime 2024 1 1 10 0 0"] by auto
  moreover have "''cable-chest-press'' \<notin> set (map ed_id HYBRID_EXERCISE_LIBRARY)"
    unfolding library_ids by simp
  ultimately show ?thesis by (simp add: hd_map)
qed

subsection \<open>Plan ids\<close>

lemma length_hex_digits: "length (hex_digits n v) = n"
  by (induction n arbitrary: v) simp_all

lemma take_hex_digits: "take k (hex_digits (k + m) v) = hex_digits k (v div 16 ^ m)"
proof (induction m arbitrary: v)
  case 0
  then show ?case using length_hex_digits [of k v] by simp
next
  case (Suc m)
  have "take k (hex_digits (k + Suc m) v) = take k (hex_digits (k + m) (v div 16))"
    by (simp add: length_hex_digits)
  also have "\<dots> = hex_digits k (v div 16 div 16 ^ m)"
    by (rule Suc.IH)
  also have "v div 16 div 16 ^ m = v div 16 ^ Suc m"
    by (simp add: div_mult2_eq)
  finally show ?case .
qed

lemma hex_char_inj: "a < 16 \<Longrightarrow> b < 16 \<Longrightarrow> hex_char a = hex_char b \<Longrightarrow> a = b"
proof -
  assume a: "a < 16" and b: "b < 16" and e: "hex_char a = hex_char b"
  have d: "distinct ''0123456789abcdef''" by simp
  have l: "length ''0123456789abcdef'' = 16" by simp
  from a b e show ?thesis
    unfolding hex_char_def using nth_eq_iff_index_eq [OF d, of a b] l by simp
qed

lemma hex_digits_inj:
  "hex_digits n a = hex_digits n b \<Longrightarrow> a mod 16 ^ n = b mod 16 ^ n"
proof (induction n arbitrary: a b)
  case 0
  then show ?case by simp
next
  case (Suc n)
  from Suc.prems have hi: "hex_digits n (a div 16) = hex_digits n (b div 16)"
    and lo: "hex_char (a mod 16) = hex_char (b mod 16)"
    by simp_all
  from lo have lo': "a mod 16 = b mod 16"
    by (rule hex_char_inj [rotated 2]) simp_all
  from Suc.IH [OF hi] have hi': "a div 16 mod 16 ^ n = b div 16 mod 16 ^ n" .
  have "a mod 16 ^ Suc n = 16 * (a div 16 mod 16 ^ n) + a mod 16"
    by (simp add: mod_mult2_eq)
  also have "\<dots> = 16 * (b div 16 mod 16 ^ n) + b mod 16"
    using hi' lo' by simp
  also have "\<dots> = b mod 16 ^ Suc n"
    by (simp add: mod_mult2_eq)
  finally show ?case .
qed

lemma uuid4_consts:
  "push_bit 48 (0xc000 :: 128 word) = push_bit 62 (mask 2)"
  "push_bit 48 (0x8000 :: 128 word) = push_bit 63 1"
  "push_bit 64 (0xf000 :: 128 word) = push_bit 76 (mask 4)"
  "push_bit 76 (4 :: 128 word) = push_bit 78 1"
  by (simp_all add: mask_eq_exp_minus_1)

lemma uuid4_top_bits: "drop_bit 96 (uuid4 r) = drop_bit 96 r"
  unfolding uuid4_def Let_def uuid4_consts
  by (rule bit_word_eqI) (auto simp add: bit_simps dest: bit_imp_le_length)

lemma unat_top_bits: "unat (drop_bit 96 (u :: 128 word)) = unat u div 16 ^ 24"
proof -
  have "unat (drop_bit 96 u) = drop_bit 96 (unat u)"
    by (rule unat_drop_bit_eq)
  also have "\<dots> = unat u div 2 ^ 96"
    by (rule drop_bit_eq_div)
  also have "(2 :: nat) ^ 96 = 16 ^ 24"
    by simp
  finally show ?thesis .
qed

lemma unat_top_lt: "unat (drop_bit 96 (u :: 128 word)) < 16 ^ 8"
proof -
  have "unat u < 2 ^ 128"
    using unsigned_less [of u, where ?'a = nat] by simp
  then have "unat u div 16 ^ 24 < 16 ^ 8"
    by (simp add: less_mult_imp_div_less)
  then show ?thesis
    unfolding unat_top_bits .
qed

lemma plan_id_take8: "take 8 (uuid_hex u) = hex_digits 8 (unat (drop_bit 96 u))"
proof -
  have "take 8 (hex_digits (8 + 24) (unat u)) = hex_digits 8 (unat u div 16 ^ 24)"
    by (rule take_hex_digits)
  then show ?thesis
    unfolding uuid_hex_def unat_top_bits by simp
qed

lemma plan_id_eq_iff:
  "(wp_plan_id (generate_workout_plan user_id user_history rnd now)
      = wp_plan_id (generate_workout_plan user_id' user_history' rnd' now'))
     = (drop_bit 96 rnd = drop_bit 96 rnd')"
proof -
  have "(wp_plan_id (generate_workout_plan user_id user_history rnd now)
      = wp_plan_id (generate_workout_plan user_id' user_history' rnd' now'))
     = (hex_digits 8 (unat (drop_bit 96 rnd)) = hex_digits 8 (unat (drop_bit 96 rnd')))"
    by (simp add: generate_workout_plan_def Let_def plan_id_take8 uuid4_top_bits)
  also have "\<dots> = (drop_bit 96 rnd = drop_bit 96 rnd')"
  proof
    assume "hex_digits 8 (unat (drop_bit 96 rnd)) = hex_digits 8 (unat (drop_bit 96 rnd'))"
    then have "unat (drop_bit 96 rnd) mod 16 ^ 8 = unat (drop_bit 96 rnd') mod 16 ^ 8"
      by (rule hex_digits_inj)
    then have "unat (drop_bit 96 rnd) = unat (drop_bit 96 rnd')"
      using unat_top_lt [of rnd] unat_top_lt [of rnd'] by simp
    then show "drop_bit 96 rnd = drop_bit 96 rnd'"
      by (rule unsigned_word_eqI)
  next
    assume "drop_bit 96 rnd = drop_bit 96 rnd'"
    then show "hex_digits 8 (unat (drop_bit 96 rnd)) = hex_digits 8 (unat (drop_bit 96 rnd'))"
      by simp
  qed
  finally show ?thesis .
qed

lemma plan_generated_at: "wp_generated_at (generate_workout_plan user_id user_history rnd now) = now"
  by (simp add: generate_workout_plan_def Let_def)

lemma plan_id_value:
  "wp_plan_id (generate_workout_plan user_id user_history rnd now)
     = ''plan_'' @ hex_digits 8 (unat (drop_bit 96 rnd))"
  by (simp add: generate_workout_plan_def Let_def plan_id_take8 uuid4_top_bits)

lemma hex_digits_0: "hex_digits n 0 = replicate n (CHR ''0'')"
  by (induction n) (simp_all add: hex_char_def replicate_append_same)

lemma hex_digits_8_0: "hex_digits 8 0 = ''00000000''"
  unfolding hex_digits_0 by (simp add: numeral_nat)

text \<open>
  Claim C8, as amended. The plan id is \<open>plan_\<close> followed by the first eight hexadecimal
  digits of the call's \<open>uuid4\<close>; two calls return the same plan id exactly when their
  random draws agree in their thirty-two leading bits (whatever the user ids, histories
  and clock values); and \<open>generated_at\<close> is the clock value read by the call.
\<close>

theorem plan_id_equal_iff_top_bits_equal:
  "wp_plan_id (generate_workout_plan user_id user_history rnd now)
     = ''plan_'' @ take 8 (uuid_hex (uuid4 rnd)) \<and>
   (wp_plan_id (generate_workout_plan user_id user_history rnd now)
      = wp_plan_id (generate_workout_plan user_id' user_history' rnd' now'))
     = (drop_bit 96 rnd = drop_bit 96 rnd') \<and>
   wp_generated_at (generate_workout_plan user_id user_history rnd now) = now"
proof -
  have "wp_plan_id (generate_workout_plan user_id user_history rnd now)
     = ''plan_'' @ take 8 (uuid_hex (uuid4 rnd))"
    by (simp add: generate_workout_plan_def Let_def)
  then show ?thesis
    using plan_id_eq_iff [of user_id user_history rnd now user_id' user_history' rnd' now']
      plan_generated_at [of user_id user_history rnd now]
    by blast
qed

text \<open>
  Claim C8 as stated fails for two calls whose random draws differ only below the leading
  thirty-two bits: the two UUIDs differ and both plans are named \<open>plan_00000000\<close>.
\<close>

theorem plan_id_collision_counterexample:
  "uuid4 0 \<noteq> uuid4 1 \<and>
   wp_plan_id (generate_workout_plan ''u1'' (None :: unit list option) 0
      (naive_datetime 2024 1 1 10 0 0)) = ''plan_00000000'' \<and>
   wp_plan_id (generate_workout_plan ''u1'' (None :: unit list option) 1
      (naive_datetime 2024 1 1 10 0 0)) = ''plan_00000000''"
proof -
  have "uuid4 0 \<noteq> uuid4 1"
    by (simp add: uuid4_def Let_def)
  moreover have "drop_bit 96 (1 :: 128 word) = 0" "drop_bit 96 (0 :: 128 word) = 0"
    by simp_all
  ultimately show ?thesis
    unfolding plan_id_value by (simp add: hex_digits_8_0)
qed

section \<open>Caller identity\<close>

text \<open>
  Claim C9, as amended. A request to \<open>GET /workout/today\<close> with no \<open>X-User-Id\<close> header, or
  with an empty one, is answered with the 401 exception and no plan; with a non-empty
  header, \<open>get_user_id\<close> returns the header's value and the request is answered with the
  plan generated for that user.
\<close>

theorem identity_header_required:
  "route_get_todays_workout None rnd now
     = Inl (HTTPException 401 ''X-User-Id header required'') \<and>
   route_get_todays_workout (Some []) rnd now
     = Inl (HTTPException 401 ''X-User-Id header required'') \<and>
   (v \<noteq> [] \<longrightarrow>
      get_user_id (Some v) = Inr v \<and>
      route_get_todays_workout (Some v) rnd now = Inr (get_todays_workout v rnd now) \<and>
      wp_user_id (get_todays_workout v rnd now) = v)"
  by (simp add: route_get_todays_workout_def get_user_id_def get_todays_workout_def
        generate_workout_plan_def Let_def)

text \<open>
  Claim C9 as stated fails for a header that is present and empty: identity extraction
  raises the 401 exception.
\<close>

theorem empty_identity_header_counterexample:
  "get_user_id (Some []) = Inl (HTTPException 401 ''X-User-Id header required'') \<and>
   route_get_todays_workout (Some []) 0 (naive_datetime 2024 1 1 10 0 0)
     = Inl (HTTPException 401 ''X-User-Id header required'')"
  by (simp add: route_get_todays_workout_def get_user_id_def)

text \<open>The amended claim at the header value \<open>u1\<close>.\<close>

theorem identity_header_required_witness:
  "''u1'' \<noteq> [] \<and> get_user_id (Some ''u1'') = Inr ''u1'' \<and>
   route_get_todays_workout (Some ''u1'') 0 (naive_datetime 2024 1 1 10 0 0)
     = Inr (get_todays_workout ''u1'' 0 (naive_datetime 2024 1 1 10 0 0)) \<and>
   wp_user_id (get_todays_workout ''u1'' 0 (naive_datetime 2024 1 1 10 0 0)) = ''u1''"
proof -
  have ne: "''u1'' \<noteq> []" by simp
  with identity_header_required [of 0 "naive_datetime 2024 1 1 10 0 0" "''u1''"] show ?thesis
    by blast
qed

section \<open>The completion recorder\<close>

lemma td_seconds_mk:
  "td_seconds (mk_timedelta d s us) = ((d * 86400 + s) * 1000000 + us) div 1000000 mod 86400"
proof -
  have "x mod 86400000000 div 1000000 = x div 1000000 mod 86400" for x :: int
    using zmod_zmult2_eq [of 86400 x 1000000] by simp
  then show ?thesis
    by (simp add: mk_timedelta_def timedelta_of_microseconds_def)
qed

lemma total_mk:
  "td_total_microseconds (mk_timedelta d s us) = (d * 86400 + s) * 1000000 + us"
proof -
  define x where "x = (d * 86400 + s) * 1000000 + us"
  have 1: "x mod 86400000000 = 1000000 * (x div 1000000 mod 86400) + x mod 1000000"
    using zmod_zmult2_eq [of 86400 x 1000000] by simp
  have 2: "x mod 86400000000 div 1000000 = x div 1000000 mod 86400"
    using 1 by simp
  have "(x div 86400000000 * 86400 + x mod 86400000000 div 1000000) * 1000000 + x mod 1000000
          = x div 86400000000 * 86400000000 + x mod 86400000000"
    unfolding 2 using 1 by simp
  also have "\<dots> = x" by simp
  finally show ?thesis
    by (simp add: mk_timedelta_def timedelta_of_microseconds_def td_total_microseconds_def x_def)
qed

lemma td_days_mk:
  "td_days (mk_timedelta d s us) = ((d * 86400 + s) * 1000000 + us) div 86400000000"
  by (simp add: mk_timedelta_def timedelta_of_microseconds_def)

lemma td_seconds_total:
  "td_seconds (mk_timedelta d s us)
     = td_total_microseconds (mk_timedelta d s us) div 1000000 mod 86400"
  by (simp only: td_seconds_mk total_mk)

lemma td_days_total:
  "td_days (mk_timedelta d s us)
     = td_total_microseconds (mk_timedelta d s us) div 86400000000"
  by (simp only: td_days_mk total_mk)

lemma normalised_mk: "normalised (mk_timedelta d s us)"
  unfolding normalised_def using td_seconds_total td_days_total by blast

lemma dt_sub_normalised: "dt_sub a b = Inr d \<Longrightarrow> normalised d"
  by (auto simp add: dt_sub_def Let_def td_sub_def td_add_def normalised_mk
        split: if_splits option.splits)

lemma minutes_of_seconds:
  "x div 1000000 mod 86400 div 60 = x div 60000000 mod 1440" for x :: int
proof -
  have "x div 1000000 mod 86400 div 60 = x div 1000000 div 60 mod 1440"
    using zmod_zmult2_eq [of 1440 "x div 1000000" 60] by simp
  also have "x div 1000000 div 60 = x div 60000000"
    by (simp add: zdiv_zmult2_eq [symmetric])
  finally show ?thesis .
qed

lemma duration_wraps:
  "dt_sub (wl_completed_at wl) (wl_started_at wl) = Inr delta \<Longrightarrow>
   \<exists>s. log_workout_completion wl user_id = Inr s \<and>
       cs_duration_minutes s = spec_duration_minutes delta mod 1440"
proof -
  assume d: "dt_sub (wl_completed_at wl) (wl_started_at wl) = Inr delta"
  from dt_sub_normalised [OF d]
  have "td_seconds delta div 60 = spec_duration_minutes delta mod 1440"
    by (simp add: normalised_def spec_duration_minutes_def minutes_of_seconds)
  then show ?thesis
    by (simp add: log_workout_completion_def d Let_def)
qed

lemmas datetime_eval =
  dt_sub_def dt_le_def dt_lt_def toordinal_def ymd2ord_def days_before_year_def
  days_before_month_def DAYS_BEFORE_MONTH_def is_leap_def mk_timedelta_def
  timedelta_of_microseconds_def naive_datetime_def Let_def


lemma sub_rev:
  "dt_sub (naive_datetime 2024 1 1 10 0 0) (naive_datetime 2024 1 1 10 42 0)
     = Inr \<lparr>td_days = -1, td_seconds = 83880, td_microseconds = 0\<rparr>"
  by (simp add: datetime_eval)

lemma sub_day:
  "dt_sub (naive_datetime 2024 1 2 10 0 0) (naive_datetime 2024 1 1 10 0 0)
     = Inr \<lparr>td_days = 1, td_seconds = 0, td_microseconds = 0\<rparr>"
  by (simp add: datetime_eval)

lemma example_sets_counts:
  "length example_sets = 6" "filter sl_is_pr example_sets = [example_set 3 True]"
  by (simp_all add: example_sets_def example_set_def)

lemma str_int_digits: "str_int 6 = ''6''" "str_int 1 = ''1''"
  by (simp_all add: str_int_def digit_char_def)

text \<open>
  Claim C1 asks for the whole elapsed time in minutes, rounded down, also for spans of a
  day or more. The code reads \<open>.seconds\<close> of the difference, which leaves the days out: on
  a log that starts on 2024-01-01 at 10:00:00 and completes on 2024-01-02 at 10:00:00,
  the elapsed time is 1440 minutes and the summary says 0.
\<close>

theorem log_workout_completion_drops_whole_days:
  "dt_le (wl_started_at day_span_log) (wl_completed_at day_span_log) = Inr True \<and>
   map_sum id spec_duration_minutes
     (dt_sub (wl_completed_at day_span_log) (wl_started_at day_span_log)) = Inr 1440 \<and>
   map_sum id cs_duration_minutes (log_workout_completion day_span_log ''u1'') = Inr 0"
  by (simp add: day_span_log_def example_log_def log_workout_completion_def sub_day dt_le_def
        spec_duration_minutes_def td_total_microseconds_def Let_def)

text \<open>
  Claim C2 as stated fails on a log that starts at 10:42:00 and completes at 10:00:00 of
  the same day: the handler returns a summary.
\<close>

theorem log_workout_completion_reversed_counterexample:
  "dt_lt (wl_completed_at reversed_log) (wl_started_at reversed_log) = Inr True \<and>
   log_workout_completion reversed_log ''u1''
     = Inr \<lparr>cs_status = ''logged'', cs_user_id = ''u1'', cs_plan_id = Some ''plan_00000000'',
            cs_sets_logged = 6, cs_duration_minutes = 1398, cs_new_prs = 1,
            cs_message = ''Great work. 6 sets logged. '' @ fire_emoji @ '' 1 new PRs!''\<rparr>"
  by (simp add: reversed_log_def example_log_def log_workout_completion_def sub_rev dt_lt_def
        example_sets_counts str_int_digits fire_emoji_def Let_def)

lemma duration_exact_below_a_day:
  "dt_sub (wl_completed_at wl) (wl_started_at wl) = Inr delta \<Longrightarrow>
   0 \<le> spec_duration_minutes delta \<Longrightarrow> spec_duration_minutes delta < 1440 \<Longrightarrow>
   \<exists>s. log_workout_completion wl user_id = Inr s \<and>
       cs_duration_minutes s = spec_duration_minutes delta"
  using duration_wraps [of wl delta user_id] by auto

lemma dt_lt_sub:
  "dt_lt a b = Inr True \<Longrightarrow> \<exists>d. dt_sub a b = Inr d \<and> td_days d < 0"
  by (cases "dt_sub a b") (simp_all add: dt_lt_def)


text \<open>
  Claim C2, as amended. A completion log whose \<open>completed_at\<close> is earlier than its
  \<open>started_at\<close> is not rejected: the handler has no validation of the two instants and
  returns a summary with status \<open>logged\<close>, the caller's user id, the log's plan id, the
  number of sets and the number of personal records, as for any other log.
\<close>

theorem log_workout_completion_accepts_reversed_times:
  assumes "dt_lt (wl_completed_at wl) (wl_started_at wl) = Inr True"
  shows "\<exists>s. log_workout_completion wl user_id = Inr s \<and>
           cs_status s = ''logged'' \<and>
           cs_user_id s = user_id \<and>
           cs_plan_id s = wl_plan_id wl \<and>
           cs_sets_logged s = int (length (wl_sets wl)) \<and>
           cs_new_prs s = int (length (filter sl_is_pr (wl_sets wl)))"
proof -
  from dt_lt_sub [OF assms] obtain delta
    where d: "dt_sub (wl_completed_at wl) (wl_started_at wl) = Inr delta"
    by blast
  show ?thesis
    by (simp add: log_workout_completion_def d Let_def)
qed

text \<open>The amended claim on that log.\<close>

theorem log_workout_completion_accepts_reversed_times_witness:
  "dt_lt (wl_completed_at reversed_log) (wl_started_at reversed_log) = Inr True \<and>
   map_sum id cs_status (log_workout_completion reversed_log ''u1'') = Inr ''logged'' \<and>
   map_sum id cs_sets_logged (log_workout_completion reversed_log ''u1'') = Inr 6"
proof -
  have h: "dt_lt (wl_completed_at reversed_log) (wl_started_at reversed_log) = Inr True"
    by (simp add: reversed_log_def example_log_def dt_lt_def sub_rev)
  have n: "length (wl_sets reversed_log) = 6"
    by (simp add: reversed_log_def example_log_def example_sets_counts)
  from log_workout_completion_accepts_reversed_times [OF h, of "''u1''"] obtain s
    where "log_workout_completion reversed_log ''u1'' = Inr s" "cs_status s = ''logged''"
      "cs_sets_logged s = int (length (wl_sets reversed_log))"
    by blast
  with h n show ?thesis by simp
qed



end
